theory Spec2Isabelle
  imports Complex_Main
begin

section \<open>Values, columns and boolean expressions\<close>

text \<open>
  The query builder of \<^verbatim>\<open>fastapi_sqlalchemy/table_query.py\<close> and the helpers of
  \<^verbatim>\<open>fastapi_sqlalchemy/util.py\<close> are embedded as functions on explicit state. The
  objects of the query-construction library are represented by the calls that build them:
  an expression is the tree of operator calls, a statement is the record of the generative
  calls applied to it.
\<close>

datatype val =
    VNone
  | VBool bool
  | VInt int
  | VStr string
  | VList "val list"
  | VTuple "val list"

text \<open>A column handle, as obtained by \<^verbatim>\<open>getattr(model, column_name)\<close>.\<close>

datatype column = Column string string

text \<open>
  \<open>Cond\<close> is a condition built by the caller (such as \<^verbatim>\<open>User.active == True\<close>) and
  handed to \<^verbatim>\<open>where\<close>; the other constructors are the calls made by
  \<^verbatim>\<open>build_filter_expression\<close>. \<open>ILikeAround c v\<close> is
  \<^verbatim>\<open>c.ilike(f"%{v}%")\<close>; \<open>And xs\<close> and \<open>Or xs\<close> are \<^verbatim>\<open>and_(*xs)\<close> and
  \<^verbatim>\<open>or_(*xs)\<close>; \<open>Not e\<close> is \<^verbatim>\<open>~e\<close>.
\<close>

datatype expr =
    Cond string
  | Eq column val
  | Ne column val
  | Gt column val
  | Ge column val
  | Lt column val
  | Le column val
  | ILikeAround column val
  | In column "val list"
  | NotIn column "val list"
  | Is column val
  | IsNot column val
  | StartsWith column val
  | EndsWith column val
  | Contains column val
  | RegexpMatch column val
  | Between column val val
  | Not expr
  | And "expr list"
  | Or "expr list"

text \<open>
  A relation is a mapped class, a table or an aliased subquery. \<open>tablename\<close>,
  \<open>type_name\<close> and \<open>alias_name\<close> are its attributes \<^verbatim>\<open>__tablename__\<close>,
  \<^verbatim>\<open>__name__\<close> and \<^verbatim>\<open>name\<close> (\<open>None\<close> when the object has no such attribute);
  \<open>attrs\<close> holds the attributes that \<^verbatim>\<open>hasattr\<close> and \<^verbatim>\<open>getattr\<close> find for a
  column name. Relation objects are truthy.
\<close>

record relation =
  tablename :: "string option"
  type_name :: "string option"
  alias_name :: "string option"
  attrs :: "(string \<times> column) list"


definition py_getattr :: "relation \<Rightarrow> string \<Rightarrow> column option" where
  "py_getattr model n = map_of (attrs model) n"

text \<open>Things that can be selected, grouped or ordered by.\<close>

datatype sel =
    SelEntity relation
  | SelCol column
  | SelExpr string
  | LiteralColumn string
  | CountDistinct sel
  | Desc sel

text \<open>
  Every failure of the modelled code is a \<^verbatim>\<open>ValueError\<close> with a message, except the
  attribute lookups on a relation without \<^verbatim>\<open>id\<close> and the failures of the engine.
  One constructor stands for each \<^verbatim>\<open>raise\<close> site and carries the values its message
  interpolates:
  \<^item> \<open>BaseTableNotSet\<close>: "Base table not set. Use .table(Model) first."
  \<^item> \<open>MalformedFilterKey p\<close>: "Column must be 'table.column' or 'table.column__operator',
    got 'p'." followed by the line "Examples: 'user.name', 'user.age__gt', 'post.title__like'"
  \<^item> \<open>UnknownTable t avail\<close>: "Unknown table/model 't'. Available: avail"
  \<^item> \<open>UnknownColumn c t\<close>: "Column 'c' not found in 't'."
  \<^item> \<open>UnsupportedOperator op\<close>: "Unsupported operator: 'op'"
  \<^item> \<open>InvalidRange op\<close>: "'op' requires [min, max] values"
  \<^item> \<open>NotTableQuery\<close>: "All arguments must be TableQuery instances"
  \<^item> \<open>EmptyDataList\<close>: "Data list cannot be empty"
  \<^item> \<open>ColumnDoesNotExist k t\<close>: "Column 'k' does not exist on table 't'"
  \<^item> \<open>WhereRequired s\<close>: "WHERE clause required for s. Use .where() first."
  \<^item> \<open>RangeStepZero\<close>: \<^verbatim>\<open>range()\<close> called with step 0
  \<^item> \<open>AttributeError n\<close>: attribute \<open>n\<close> read on an object that lacks it
  \<^item> \<open>ArgumentError s\<close>: the library rejects \<^verbatim>\<open>None\<close> as the argument of \<open>s\<close>
  \<^item> \<open>EngineError s\<close>: an exception raised by the session
\<close>

datatype error =
    BaseTableNotSet
  | MalformedFilterKey string
  | UnknownTable string string
  | UnknownColumn string string
  | UnsupportedOperator string
  | InvalidRange string
  | NotTableQuery
  | EmptyDataList
  | ColumnDoesNotExist string string
  | WhereRequired string
  | RangeStepZero
  | AttributeError string
  | ArgumentError string
  | EngineError string

section \<open>Statements\<close>

text \<open>
  A \<^verbatim>\<open>select(...)\<close> object as the record of what was called on it:
  \<open>s_columns\<close> the arguments of \<^verbatim>\<open>select\<close>, \<open>s_select_from\<close> the argument of
  \<^verbatim>\<open>select_from\<close>, \<open>s_schema\<close> the schema translate map of
  \<^verbatim>\<open>execution_options\<close>, \<open>s_joins\<close> one entry (target, on-clause, isouter, full) per
  \<^verbatim>\<open>join\<close> call in call order (the left side of each join is the statement's current
  FROM), \<open>s_where\<close> one entry per \<^verbatim>\<open>where\<close> call, and so on.
\<close>

record stmt =
  s_columns :: "sel list"
  s_select_from :: "relation option"
  s_schema :: "string option"
  s_joins :: "(relation \<times> expr \<times> bool \<times> bool) list"
  s_where :: "expr list"
  s_group_by :: "sel list"
  s_having :: "expr list"
  s_order_by :: "sel list"
  s_limit :: "int option"
  s_offset :: "int option"

definition select_stmt :: "sel list \<Rightarrow> stmt" where
  "select_stmt cols =
     \<lparr>s_columns = cols, s_select_from = None, s_schema = None, s_joins = [], s_where = [],
      s_group_by = [], s_having = [], s_order_by = [], s_limit = None, s_offset = None\<rparr>"

definition stmt_join :: "stmt \<Rightarrow> relation \<Rightarrow> expr \<Rightarrow> bool \<Rightarrow> bool \<Rightarrow> stmt" where
  "stmt_join st model onclause isouter full =
     st\<lparr>s_joins := s_joins st @ [(model, onclause, isouter, full)]\<rparr>"

definition stmt_where :: "stmt \<Rightarrow> expr \<Rightarrow> stmt" where
  "stmt_where st c = st\<lparr>s_where := s_where st @ [c]\<rparr>"

section \<open>util.py: DBQuerySetting\<close>

definition apply_join :: "stmt \<Rightarrow> string \<Rightarrow> relation \<Rightarrow> expr \<Rightarrow> stmt" where
  "apply_join st join_type model onclause =
     (if join_type = ''right'' then stmt_join st model onclause True False
      else if join_type = ''full'' then stmt_join st model onclause True True
      else stmt_join st model onclause (join_type = ''left'') False)"

definition apply_where :: "stmt \<Rightarrow> expr list \<Rightarrow> expr list \<Rightarrow> stmt" where
  "apply_where st where_conditions or_conditions =
     (if where_conditions = [] \<and> or_conditions = [] then st
      else
        let conditions = [];
            conditions =
              (if where_conditions \<noteq> [] then
                 (if length where_conditions = 1 then conditions @ [hd where_conditions]
                  else conditions @ [And where_conditions])
               else conditions);
            conditions =
              (if or_conditions \<noteq> [] then
                 (if length or_conditions = 1 then conditions @ [hd or_conditions]
                  else conditions @ [Or or_conditions])
               else conditions)
        in if length conditions = 1 then stmt_where st (hd conditions)
           else stmt_where st (And conditions))"

definition as_list :: "val \<Rightarrow> val list" where
  "as_list v = (case v of VList xs \<Rightarrow> xs | _ \<Rightarrow> [v])"

text \<open>\<^verbatim>\<open>isinstance(value, (list, tuple)) and len(value) == 2\<close>, with the two items.\<close>

definition pair_of :: "val \<Rightarrow> (val \<times> val) option" where
  "pair_of v =
     (case v of
        VList xs \<Rightarrow> (case xs of [a, b] \<Rightarrow> Some (a, b) | _ \<Rightarrow> None)
      | VTuple xs \<Rightarrow> (case xs of [a, b] \<Rightarrow> Some (a, b) | _ \<Rightarrow> None)
      | _ \<Rightarrow> None)"

definition build_filter_expression :: "column \<Rightarrow> string \<Rightarrow> val \<Rightarrow> error + expr" where
  "build_filter_expression col op v =
     (if op = ''eq'' then Inr (Eq col v)
      else if op = ''ne'' \<or> op = ''neq'' then Inr (Ne col v)
      else if op = ''gt'' then Inr (Gt col v)
      else if op = ''gte'' then Inr (Ge col v)
      else if op = ''lt'' then Inr (Lt col v)
      else if op = ''lte'' then Inr (Le col v)
      else if op = ''like'' \<or> op = ''icontains'' then Inr (ILikeAround col v)
      else if op = ''in'' then Inr (In col (as_list v))
      else if op = ''notin'' then Inr (NotIn col (as_list v))
      else if op = ''is'' then Inr (Is col v)
      else if op = ''not'' then Inr (IsNot col v)
      else if op = ''isnull'' then Inr (Is col VNone)
      else if op = ''notnull'' then Inr (IsNot col VNone)
      else if op = ''startswith'' then Inr (StartsWith col v)
      else if op = ''endswith'' then Inr (EndsWith col v)
      else if op = ''contains'' then Inr (Contains col v)
      else if op = ''regexp'' then Inr (RegexpMatch col v)
      else if op = ''between'' then
        (case pair_of v of
           None \<Rightarrow> Inl (InvalidRange ''between'')
         | Some (a, b) \<Rightarrow> Inr (Between col a b))
      else if op = ''not_between'' then
        (case pair_of v of
           None \<Rightarrow> Inl (InvalidRange ''not_between'')
         | Some (a, b) \<Rightarrow> Inr (Not (Between col a b)))
      else if op = ''isnot'' then Inr (IsNot col v)
      else Inl (UnsupportedOperator op))"

text \<open>\<^verbatim>\<open>str.lower\<close> on the ASCII letters; other characters are kept.\<close>

definition lower_char :: "char \<Rightarrow> char" where
  "lower_char c =
     (let n = (of_char c :: nat) in if 65 \<le> n \<and> n \<le> 90 then char_of (n + 32) else c)"

definition lower :: "string \<Rightarrow> string" where
  "lower s = map lower_char s"

text \<open>\<^verbatim>\<open>getattr(obj, name, 'unknown')\<close> for the two naming attributes of the base table.\<close>

definition or_unknown :: "string option \<Rightarrow> string" where
  "or_unknown a = (case a of None \<Rightarrow> ''unknown'' | Some s \<Rightarrow> s)"

text \<open>
  The test of the loop over the joins: each of the three names is lower-cased when it is
  present and non-empty, and compared with the lower-cased table name.
\<close>

definition name_is :: "string \<Rightarrow> string option \<Rightarrow> bool" where
  "name_is table_name_lower a = (case a of None \<Rightarrow> False | Some s \<Rightarrow> table_name_lower = lower s)"

definition join_matches :: "string \<Rightarrow> relation \<Rightarrow> bool" where
  "join_matches table_name join_model =
     (let table_name_lower = lower table_name
      in name_is table_name_lower (tablename join_model) \<or>
         name_is table_name_lower (type_name join_model) \<or>
         name_is table_name_lower (alias_name join_model))"

fun find_join :: "string \<Rightarrow> (string \<times> relation \<times> expr) list \<Rightarrow> relation option" where
  "find_join table_name [] = None"
| "find_join table_name ((jt, join_model, onclause) # js) =
     (if join_matches table_name join_model then Some join_model
      else find_join table_name js)"

definition base_matches :: "string \<Rightarrow> relation \<Rightarrow> bool" where
  "base_matches table_name base =
     (let table_name_lower = lower table_name;
          base_table_name = lower (or_unknown (tablename base));
          base_model_name = lower (or_unknown (type_name base))
      in table_name_lower = base_table_name \<or> table_name_lower = base_model_name)"

fun join_strings :: "string \<Rightarrow> string list \<Rightarrow> string" where
  "join_strings sep [] = []"
| "join_strings sep [x] = x"
| "join_strings sep (x # y # ys) = x @ sep @ join_strings sep (y # ys)"

definition base_entry :: "relation \<Rightarrow> string" where
  "base_entry base =
     or_unknown (type_name base) @ ''('' @ or_unknown (tablename base) @ '')''"

text \<open>
  \<^verbatim>\<open>getattr(m, '__tablename__', None) or getattr(m, 'name', 'unknown')\<close>: an absent or
  empty table name falls through to the alias.
\<close>

definition join_table_name :: "relation \<Rightarrow> string" where
  "join_table_name m =
     (case tablename m of
        None \<Rightarrow> or_unknown (alias_name m)
      | Some t \<Rightarrow> if t = [] then or_unknown (alias_name m) else t)"

definition join_entry :: "relation \<Rightarrow> string" where
  "join_entry m =
     (case type_name m of
        None \<Rightarrow> ''subquery('' @ join_table_name m @ '')''
      | Some n \<Rightarrow>
          if n = [] then ''subquery('' @ join_table_name m @ '')''
          else n @ ''('' @ join_table_name m @ '')'')"

definition get_available_tables ::
  "relation option \<Rightarrow> (string \<times> relation \<times> expr) list \<Rightarrow> string" where
  "get_available_tables base_table joins =
     (let tables = (case base_table of None \<Rightarrow> [] | Some base \<Rightarrow> [base_entry base]);
          tables = tables @ map (\<lambda>(jt, join_model, onclause). join_entry join_model) joins
      in join_strings '', '' tables)"

definition get_column_from_model ::
  "relation option \<Rightarrow> (string \<times> relation \<times> expr) list \<Rightarrow> string \<Rightarrow> string \<Rightarrow> error + column"
where
  "get_column_from_model base_table joins table_name column_name =
     (let model =
            (case base_table of
               None \<Rightarrow> None
             | Some base \<Rightarrow> if base_matches table_name base then Some base else None);
          model = (case model of None \<Rightarrow> find_join table_name joins | Some m \<Rightarrow> Some m)
      in case model of
           None \<Rightarrow> Inl (UnknownTable table_name (get_available_tables base_table joins))
         | Some m \<Rightarrow>
             (case py_getattr m column_name of
                None \<Rightarrow> Inl (UnknownColumn column_name table_name)
              | Some col \<Rightarrow> Inr col))"

section \<open>table_query.py: the builder state\<close>

text \<open>
  The fields of a \<^verbatim>\<open>TableQuery\<close> (the session apart), \<open>q_x\<close> for \<^verbatim>\<open>self._x\<close>. The
  members of \<^verbatim>\<open>_union_queries\<close> are builders themselves; the code stores them and never
  looks inside, so their type is left open.
\<close>

record 'q table_query =
  q_schema :: "string option"
  q_base_table :: "relation option"
  q_joins :: "(string \<times> relation \<times> expr) list"
  q_where :: "expr list"
  q_or_where :: "expr list"
  q_select :: "sel list"
  q_order :: "sel list"
  q_group_by :: "sel list"
  q_having :: "expr list"
  q_limit :: "int option"
  q_offset :: "int option"
  q_union_queries :: "'q list"
  q_union_all :: bool
  q_load_options :: "string list"
  q_enable_orm :: bool

definition reset_state :: "'q table_query \<Rightarrow> 'q table_query" where
  "reset_state self =
     \<lparr>q_schema = None, q_base_table = None, q_joins = [], q_where = [], q_or_where = [],
      q_select = [], q_order = [], q_group_by = [], q_having = [], q_limit = None,
      q_offset = None, q_union_queries = [], q_union_all = False, q_load_options = [],
      q_enable_orm = False\<rparr>"

text \<open>\<^verbatim>\<open>TableQuery(session)\<close>: the constructor calls \<^verbatim>\<open>_reset_state\<close>.\<close>

definition new_table_query :: "'q table_query" where
  "new_table_query =
     \<lparr>q_schema = None, q_base_table = None, q_joins = [], q_where = [], q_or_where = [],
      q_select = [], q_order = [], q_group_by = [], q_having = [], q_limit = None,
      q_offset = None, q_union_queries = [], q_union_all = False, q_load_options = [],
      q_enable_orm = False\<rparr>"

text \<open>A deep copy is the same value.\<close>

definition clone :: "'q table_query \<Rightarrow> 'q table_query" where
  "clone self =
     (new_table_query :: 'q table_query)
       \<lparr>q_schema := q_schema self, q_base_table := q_base_table self, q_joins := q_joins self,
        q_where := q_where self, q_or_where := q_or_where self, q_select := q_select self,
        q_order := q_order self, q_group_by := q_group_by self, q_having := q_having self,
        q_limit := q_limit self, q_offset := q_offset self,
        q_union_queries := q_union_queries self, q_union_all := q_union_all self,
        q_load_options := q_load_options self, q_enable_orm := q_enable_orm self\<rparr>"




definition build_query :: "'q table_query \<Rightarrow> error + stmt" where
  "build_query self =
     (case q_base_table self of
        None \<Rightarrow> Inl BaseTableNotSet
      | Some base \<Rightarrow>
          let st = select_stmt (if q_select self \<noteq> [] then q_select self else [SelEntity base]);
              st = (case q_schema self of
                      None \<Rightarrow> st
                    | Some s \<Rightarrow> if s = [] then st else st\<lparr>s_schema := Some s\<rparr>);
              st = fold (\<lambda>(join_type, model, onclause) st. apply_join st join_type model onclause)
                     (q_joins self) st;
              st = apply_where st (q_where self) (q_or_where self);
              st = (if q_group_by self \<noteq> [] then st\<lparr>s_group_by := s_group_by st @ q_group_by self\<rparr>
                    else st);
              st = (if q_having self \<noteq> [] then st\<lparr>s_having := s_having st @ [And (q_having self)]\<rparr>
                    else st);
              st = (if q_order self \<noteq> [] then st\<lparr>s_order_by := s_order_by st @ q_order self\<rparr>
                    else st);
              st = (case q_limit self of None \<Rightarrow> st | Some l \<Rightarrow> st\<lparr>s_limit := Some l\<rparr>);
              st = (case q_offset self of None \<Rightarrow> st | Some off \<Rightarrow> st\<lparr>s_offset := Some off\<rparr>)
          in Inr st)"

subsection \<open>Chainable methods\<close>

definition table :: "relation \<Rightarrow> 'q table_query \<Rightarrow> 'q table_query" where
  "table model self = self\<lparr>q_base_table := Some model\<rparr>"


definition where_q :: "expr list \<Rightarrow> 'q table_query \<Rightarrow> 'q table_query" where
  "where_q conditions self = self\<lparr>q_where := q_where self @ conditions\<rparr>"


definition join :: "relation \<Rightarrow> expr \<Rightarrow> 'q table_query \<Rightarrow> 'q table_query" where
  "join model onclause self = self\<lparr>q_joins := q_joins self @ [(''inner'', model, onclause)]\<rparr>"

definition left_join :: "relation \<Rightarrow> expr \<Rightarrow> 'q table_query \<Rightarrow> 'q table_query" where
  "left_join model onclause self = self\<lparr>q_joins := q_joins self @ [(''left'', model, onclause)]\<rparr>"

definition inner_join :: "relation \<Rightarrow> expr \<Rightarrow> 'q table_query \<Rightarrow> 'q table_query" where
  "inner_join model onclause self = self\<lparr>q_joins := q_joins self @ [(''inner'', model, onclause)]\<rparr>"

definition right_join :: "relation \<Rightarrow> expr \<Rightarrow> 'q table_query \<Rightarrow> 'q table_query" where
  "right_join model onclause self = self\<lparr>q_joins := q_joins self @ [(''right'', model, onclause)]\<rparr>"

definition full_join :: "relation \<Rightarrow> expr \<Rightarrow> 'q table_query \<Rightarrow> 'q table_query" where
  "full_join model onclause self = self\<lparr>q_joins := q_joins self @ [(''full'', model, onclause)]\<rparr>"



definition having :: "expr list \<Rightarrow> 'q table_query \<Rightarrow> 'q table_query" where
  "having conditions self = self\<lparr>q_having := q_having self @ conditions\<rparr>"

text \<open>
  An argument of \<^verbatim>\<open>union\<close> and \<^verbatim>\<open>union_all\<close>: a \<^verbatim>\<open>TableQuery\<close> or any other
  object.
\<close>

datatype 'q py_arg = TQ 'q | NotTQ

fun the_tqs :: "'q py_arg list \<Rightarrow> 'q list option" where
  "the_tqs [] = Some []"
| "the_tqs (NotTQ # qs) = None"
| "the_tqs (TQ q # qs) = (case the_tqs qs of None \<Rightarrow> None | Some ms \<Rightarrow> Some (q # ms))"

definition union_q :: "'q py_arg list \<Rightarrow> 'q table_query \<Rightarrow> error + 'q table_query" where
  "union_q queries self =
     (case the_tqs queries of
        None \<Rightarrow> Inl NotTableQuery
      | Some ms \<Rightarrow> Inr (self\<lparr>q_union_queries := ms, q_union_all := False\<rparr>))"

definition union_all :: "'q py_arg list \<Rightarrow> 'q table_query \<Rightarrow> error + 'q table_query" where
  "union_all queries self =
     (case the_tqs queries of
        None \<Rightarrow> Inl NotTableQuery
      | Some ms \<Rightarrow> Inr (self\<lparr>q_union_queries := ms, q_union_all := True\<rparr>))"

subsection \<open>apply_filters\<close>

text \<open>\<^verbatim>\<open>key.split("__")\<close>: the separators are found from the left, without overlap.\<close>

fun split_dunder_from :: "string \<Rightarrow> string \<Rightarrow> string list" where
  "split_dunder_from acc (c # d # cs) =
     (if c = CHR ''_'' \<and> d = CHR ''_'' then acc # split_dunder_from [] cs
      else split_dunder_from (acc @ [c]) (d # cs))"
| "split_dunder_from acc cs = [acc @ cs]"

definition split_dunder :: "string \<Rightarrow> string list" where
  "split_dunder key = split_dunder_from [] key"

text \<open>
  \<^verbatim>\<open>"__".join(parts[:-1]) if len(parts) > 1 else parts[0]\<close> and
  \<^verbatim>\<open>parts[-1] if len(parts) > 1 else "eq"\<close>.
\<close>

definition col_name_of :: "string \<Rightarrow> string" where
  "col_name_of key =
     (let parts = split_dunder key
      in if length parts > 1 then join_strings ''__'' (butlast parts) else hd parts)"

definition op_of :: "string \<Rightarrow> string" where
  "op_of key =
     (let parts = split_dunder key in if length parts > 1 then last parts else ''eq'')"

text \<open>\<^verbatim>\<open>col_name.split(".", 1)\<close> for a name that contains a dot.\<close>

definition split_dot_once :: "string \<Rightarrow> string \<times> string" where
  "split_dot_once s =
     (takeWhile (\<lambda>c. c \<noteq> CHR ''.'') s, tl (dropWhile (\<lambda>c. c \<noteq> CHR ''.'') s))"

text \<open>The loop of \<^verbatim>\<open>apply_filters\<close> over the items of the mapping, in their order.\<close>

fun filter_expressions ::
  "relation option \<Rightarrow> (string \<times> relation \<times> expr) list \<Rightarrow> (string \<times> val) list \<Rightarrow> error + expr list"
where
  "filter_expressions base joins [] = Inr []"
| "filter_expressions base joins ((key, v) # rest) =
     (if v = VNone then filter_expressions base joins rest
      else
        let col_name = col_name_of key; op = op_of key
        in if CHR ''.'' \<notin> set col_name then Inl (MalformedFilterKey col_name)
           else
             (case split_dot_once col_name of
                (table_name, column_name) \<Rightarrow>
                  (case get_column_from_model base joins table_name column_name of
                     Inl e \<Rightarrow> Inl e
                   | Inr col \<Rightarrow>
                       (case build_filter_expression col op v of
                          Inl e \<Rightarrow> Inl e
                        | Inr ex \<Rightarrow>
                            (case filter_expressions base joins rest of
                               Inl e \<Rightarrow> Inl e
                             | Inr exs \<Rightarrow> Inr (ex # exs))))))"

definition apply_filters ::
  "(string \<times> val) list \<Rightarrow> bool \<Rightarrow> 'q table_query \<Rightarrow> error + 'q table_query" where
  "apply_filters filters use_or self =
     (case filter_expressions (q_base_table self) (q_joins self) filters of
        Inl e \<Rightarrow> Inl e
      | Inr expressions \<Rightarrow>
          if expressions \<noteq> [] then
            (if use_or then Inr (self\<lparr>q_or_where := q_or_where self @ [Or expressions]\<rparr>)
             else Inr (self\<lparr>q_where := q_where self @ [And expressions]\<rparr>))
          else Inr self)"

section \<open>The session\<close>

text \<open>
  The session is the capability the builder executes against. It is a parameter: a
  function from the statement and the state of the database to what \<^verbatim>\<open>execute\<close>
  returns or raises and the state afterwards, and one for \<^verbatim>\<open>commit\<close>. Of a result,
  \<open>r_rows\<close> is what \<^verbatim>\<open>all()\<close> and \<^verbatim>\<open>mappings().all()\<close> give and \<open>r_scalar\<close> what
  \<^verbatim>\<open>scalar_one()\<close> gives (\<open>None\<close> for Python's \<^verbatim>\<open>None\<close>).
\<close>

type_synonym row = "(string \<times> val) list"

record result =
  r_rows :: "row list"
  r_scalar :: "int option"

text \<open>
  \<open>InsertStmt t schema returning params\<close> is \<^verbatim>\<open>insert(t)\<close>, with the schema translate
  map when \<open>schema\<close> is set and \<^verbatim>\<open>.returning(t)\<close> when \<open>returning\<close> holds, executed with
  the list of parameter rows.
\<close>

datatype statement =
    SelectStmt stmt
  | InsertStmt relation "string option" bool "row list"

record 'db session =
  execute :: "statement \<Rightarrow> 'db \<Rightarrow> (error + result) \<times> 'db"
  commit :: "'db \<Rightarrow> error option \<times> 'db"

section \<open>table_query.py: terminal methods\<close>

text \<open>
  A terminal method returns what the call returns or raises, the state of the database and
  the state of the builder it was called on (\<^verbatim>\<open>self\<close>) after the call.
\<close>

definition all ::
  "'db session \<Rightarrow> 'q table_query \<Rightarrow> 'db \<Rightarrow> (error + row list) \<times> 'db \<times> 'q table_query" where
  "all session self db =
     (let cloned = clone self
      in case build_query cloned of
           Inl e \<Rightarrow> (Inl e, db, self)
         | Inr st \<Rightarrow>
             (case execute session (SelectStmt st) db of
                (Inl e, db') \<Rightarrow> (Inl e, db', self)
              | (Inr res, db') \<Rightarrow>
                  let cloned = reset_state cloned
                  in (Inr (r_rows res), db', self)))"

definition first ::
  "'db session \<Rightarrow> 'q table_query \<Rightarrow> 'db \<Rightarrow> (error + row option) \<times> 'db \<times> 'q table_query" where
  "first session self db =
     (let cloned = clone self
      in case build_query cloned of
           Inl e \<Rightarrow> (Inl e, db, self)
         | Inr st \<Rightarrow>
             (case execute session (SelectStmt st) db of
                (Inl e, db') \<Rightarrow> (Inl e, db', self)
              | (Inr res, db') \<Rightarrow>
                  let r = (case r_rows res of [] \<Rightarrow> None | x # xs \<Rightarrow> Some x);
                      cloned = reset_state cloned
                  in (Inr r, db', self)))"

text \<open>
  The count statement, built the same way by \<^verbatim>\<open>count\<close> (lines 523 to 535) and by
  \<^verbatim>\<open>paginate\<close> (lines 713 to 725). \<^verbatim>\<open>getattr(base, "id", None)\<close> of a missing base
  is \<^verbatim>\<open>None\<close>; a column is truthy, so \<^verbatim>\<open>pk_col or ...\<close> is the column when there is
  one. Reading \<^verbatim>\<open>.id\<close> where there is none raises.
\<close>

definition count_statement :: "'q table_query \<Rightarrow> error + stmt" where
  "count_statement cloned =
     (let count_col =
            (if q_group_by cloned \<noteq> [] then
               let pk_col = (case q_base_table cloned of
                               None \<Rightarrow> None
                             | Some base \<Rightarrow> py_getattr base ''id'')
               in (case pk_col of
                     Some pk \<Rightarrow> Inr (SelCol pk)
                   | None \<Rightarrow>
                       Inr (if q_select cloned \<noteq> [] then hd (q_select cloned)
                            else LiteralColumn ''1''))
             else
               (case q_base_table cloned of
                  None \<Rightarrow> Inl (AttributeError ''id'')
                | Some base \<Rightarrow>
                    (case py_getattr base ''id'' of
                       None \<Rightarrow> Inl (AttributeError ''id'')
                     | Some pk \<Rightarrow> Inr (SelCol pk))))
      in case count_col of
           Inl e \<Rightarrow> Inl e
         | Inr c \<Rightarrow>
             (case q_base_table cloned of
                None \<Rightarrow> Inl (ArgumentError ''select_from'')
              | Some base \<Rightarrow>
                  let st = select_stmt [CountDistinct c];
                      st = st\<lparr>s_select_from := Some base\<rparr>;
                      st = fold (\<lambda>(join_type, model, onclause) st.
                                   apply_join st join_type model onclause) (q_joins cloned) st;
                      st = apply_where st (q_where cloned) (q_or_where cloned)
                  in Inr st))"

definition count ::
  "'db session \<Rightarrow> 'q table_query \<Rightarrow> 'db \<Rightarrow> (error + int) \<times> 'db \<times> 'q table_query" where
  "count session self db =
     (if q_base_table self = None then (Inl BaseTableNotSet, db, self)
      else
        let cloned = clone self
        in case count_statement cloned of
             Inl e \<Rightarrow> (Inl e, db, self)
           | Inr st \<Rightarrow>
               (case execute session (SelectStmt st) db of
                  (Inl e, db') \<Rightarrow> (Inl e, db', self)
                | (Inr res, db') \<Rightarrow>
                    let cloned = reset_state cloned
                    in (Inr (case r_scalar res of None \<Rightarrow> 0 | Some n \<Rightarrow> n), db', self)))"

record pagination =
  p_total_records :: int
  p_limit :: int
  p_offset :: int
  p_has_more :: bool
  p_total_pages :: int
  p_current_page :: int
  p_first_page :: int
  p_previous_page :: "int option"
  p_next_page :: "int option"
  p_last_page :: int

text \<open>
  \<^verbatim>\<open>math.ceil(a / b)\<close>, with the true division taken exactly (over the reals); Python
  divides in binary floating point, which gives the same ceiling while the counts stay
  below \<open>2 ^ 53\<close>.
\<close>

definition ceil_div :: "int \<Rightarrow> int \<Rightarrow> int" where
  "ceil_div a b = \<lceil>real_of_int a / real_of_int b\<rceil>"

definition paginate ::
  "'db session \<Rightarrow> int \<Rightarrow> int \<Rightarrow> 'q table_query \<Rightarrow> 'db \<Rightarrow>
     (error + row list \<times> pagination) \<times> 'db \<times> 'q table_query" where
  "paginate session page per_page self db =
     (let page = (if page < 1 then 1 else page);
          per_page = (if per_page < 1 then 10 else per_page);
          cloned = clone self
      in case count_statement cloned of
           Inl e \<Rightarrow> (Inl e, db, self)
         | Inr count_stmt \<Rightarrow>
             (case execute session (SelectStmt count_stmt) db of
                (Inl e, db1) \<Rightarrow> (Inl e, db1, self)
              | (Inr count_res, db1) \<Rightarrow>
                  let total_records = (case r_scalar count_res of None \<Rightarrow> 0 | Some n \<Rightarrow> n);
                      total_pages = (if total_records \<noteq> 0 then ceil_div total_records per_page
                                     else 1);
                      offset = (page - 1) * per_page;
                      has_more = (page < total_pages)
                  in (case build_query cloned of
                       Inl e \<Rightarrow> (Inl e, db1, self)
                     | Inr st \<Rightarrow>
                         let paginated_stmt = st\<lparr>s_limit := Some per_page, s_offset := Some offset\<rparr>
                         in (case execute session (SelectStmt paginated_stmt) db1 of
                              (Inl e, db2) \<Rightarrow> (Inl e, db2, self)
                            | (Inr res, db2) \<Rightarrow>
                                let items = r_rows res;
                                    pagination =
                                      \<lparr>p_total_records = total_records,
                                       p_limit = per_page,
                                       p_offset = offset,
                                       p_has_more = has_more,
                                       p_total_pages = total_pages,
                                       p_current_page = page,
                                       p_first_page = 1,
                                       p_previous_page = (if page > 1 then Some (page - 1) else None),
                                       p_next_page = (if has_more then Some (page + 1) else None),
                                       p_last_page = total_pages\<rparr>
                                in (Inr (items, pagination), db2, reset_state self)))))"

subsection \<open>create_many\<close>


definition truthy_schema :: "string option \<Rightarrow> string option" where
  "truthy_schema s = (case s of None \<Rightarrow> None | Some n \<Rightarrow> if n = [] then None else Some n)"





section \<open>Example inputs\<close>

text \<open>Sequencing of two fallible calls: an exception of the first ends the chain.\<close>

definition then_do :: "error + 'a \<Rightarrow> ('a \<Rightarrow> error + 'b) \<Rightarrow> error + 'b" where
  "then_do r f = (case r of Inl e \<Rightarrow> Inl e | Inr x \<Rightarrow> f x)"


definition rel_users :: relation where
  "rel_users = \<lparr>tablename = Some ''users'', type_name = Some ''User'', alias_name = None,
     attrs = [(''id'', Column ''users'' ''id''), (''name'', Column ''users'' ''name''),
              (''x'', Column ''users'' ''x'')]\<rparr>"


definition rel_posts :: relation where
  "rel_posts = \<lparr>tablename = Some ''posts'', type_name = Some ''Post'', alias_name = None,
     attrs = [(''id'', Column ''posts'' ''id''), (''title'', Column ''posts'' ''title'')]\<rparr>"


definition q_users :: "unit table_query" where
  "q_users = table rel_users new_table_query"



text \<open>
  A session that records the statements it is given: it answers an insert that asks for
  RETURNING with the inserted rows in their order, anything else with no rows.
\<close>

definition echo_session :: "statement list session" where
  "echo_session =
     \<lparr>execute = (\<lambda>st lg.
        (Inr \<lparr>r_rows = (case st of
                           InsertStmt t sch ret rows \<Rightarrow> if ret then rows else []
                         | SelectStmt s \<Rightarrow> []),
              r_scalar = None\<rparr>,
         lg @ [st])),
      commit = (\<lambda>lg. (None, lg))\<rparr>"

text \<open>\<^verbatim>\<open>db.table(User).where(User.active == True)\<close>\<close>

definition q_active :: "unit table_query" where
  "q_active = where_q [Cond ''User.active == True''] (table rel_users new_table_query)"

definition q_posts :: "unit table_query" where
  "q_posts = table rel_posts new_table_query"

definition q_users_base :: "unit table_query table_query" where
  "q_users_base = table rel_users new_table_query"








section \<open>Properties of the predicate groups\<close>






section \<open>Properties of the filter keys\<close>

lemma filter_expressions_append:
  "filter_expressions b j (pre @ rest) =
     (case filter_expressions b j pre of
        Inl e \<Rightarrow> Inl e
      | Inr es \<Rightarrow>
          (case filter_expressions b j rest of Inl e \<Rightarrow> Inl e | Inr es' \<Rightarrow> Inr (es @ es')))"
proof (induction pre)
  case Nil
  show ?case by (simp split: sum.splits)
next
  case (Cons a pre)
  obtain k v where a: "a = (k, v)" by (cases a)
  show ?case unfolding a using Cons.IH
    by (simp add: Let_def split: sum.splits prod.splits)
qed

lemma filter_expressions_skip_none:
  "filter_expressions b j fs = filter_expressions b j (filter (\<lambda>e. snd e \<noteq> VNone) fs)"
proof (induction fs)
  case Nil
  show ?case by simp
next
  case (Cons a fs)
  obtain k v where a: "a = (k, v)" by (cases a)
  show ?case unfolding a
    by (simp add: Let_def Cons.IH [symmetric] split: prod.splits sum.splits)
qed

lemma filter_expressions_all_none:
  "\<forall>e \<in> set fs. snd e = VNone \<Longrightarrow> filter_expressions b j fs = Inr []"
  by (induction fs) auto

lemma filter_expressions_malformed:
  "filter_expressions b j fs = Inl (MalformedFilterKey p) \<Longrightarrow>
     \<exists>e \<in> set fs. snd e \<noteq> VNone \<and> col_name_of (fst e) = p \<and> CHR ''.'' \<notin> set p"
proof (induction fs)
  case Nil
  then show ?case by simp
next
  case (Cons a fs)
  obtain k v where a: "a = (k, v)" by (cases a)
  show ?case using Cons unfolding a
    by (auto simp: Let_def get_column_from_model_def build_filter_expression_def
        split: if_splits sum.splits prod.splits option.splits)
qed

text \<open>
  Claim C5, as stated, fails on two inputs. A column path with two dots is not rejected as
  malformed: it is cut at its first dot, and the call fails in the resolver with the
  unknown-column error for \<open>profile.city\<close>. And an entry whose value is \<^verbatim>\<open>None\<close> is
  skipped before its key is looked at, so a path without a dot passes.
\<close>

theorem apply_filters_dots_counterexample:
  "apply_filters [(''users.profile.city__eq'', VStr ''x'')] False q_users =
     Inl (UnknownColumn ''profile.city'' ''users'') \<and>
   apply_filters [(''name__eq'', VNone)] False q_users = Inr q_users"
  by code_simp

text \<open>
  Claim C5, amended: when the entries before an entry are processed without error, the
  entry's value is not \<^verbatim>\<open>None\<close> and its column path (the key without its trailing
  operator suffix) contains no dot, the call fails with the malformed-key error, which names
  that column path. The malformed-key error is raised for no other entry: whenever a call
  fails with it, the path it names is the column path of an entry with a value other than
  \<^verbatim>\<open>None\<close> and contains no dot.
\<close>

theorem apply_filters_malformed_key:
  "(filter_expressions (q_base_table self) (q_joins self) pre = Inr es \<and> v \<noteq> VNone \<and>
      CHR ''.'' \<notin> set (col_name_of key) \<longrightarrow>
      apply_filters (pre @ (key, v) # post) use_or self = Inl (MalformedFilterKey (col_name_of key))) \<and>
   (apply_filters fs use_or self = Inl (MalformedFilterKey p) \<longrightarrow>
      (\<exists>e \<in> set fs. snd e \<noteq> VNone \<and> col_name_of (fst e) = p \<and> CHR ''.'' \<notin> set p))"
proof (intro conjI impI)
  assume "filter_expressions (q_base_table self) (q_joins self) pre = Inr es \<and> v \<noteq> VNone \<and>
      CHR ''.'' \<notin> set (col_name_of key)"
  then show "apply_filters (pre @ (key, v) # post) use_or self =
      Inl (MalformedFilterKey (col_name_of key))"
    by (simp add: apply_filters_def filter_expressions_append Let_def)
next
  assume "apply_filters fs use_or self = Inl (MalformedFilterKey p)"
  then have "filter_expressions (q_base_table self) (q_joins self) fs = Inl (MalformedFilterKey p)"
    by (auto simp: apply_filters_def split: sum.splits if_splits)
  then show "\<exists>e \<in> set fs. snd e \<noteq> VNone \<and> col_name_of (fst e) = p \<and> CHR ''.'' \<notin> set p"
    by (rule filter_expressions_malformed)
qed

theorem apply_filters_malformed_key_witness:
  "apply_filters [(''users.name'', VStr ''x''), (''name__gt'', VInt 3)] False q_users =
     Inl (MalformedFilterKey ''name'') \<and>
   (\<exists>e \<in> set [(''users.name'', VStr ''x''), (''name__gt'', VInt 3)].
      snd e \<noteq> VNone \<and> col_name_of (fst e) = ''name'' \<and> CHR ''.'' \<notin> set ''name'')"
proof -
  have 1: "filter_expressions (q_base_table q_users) (q_joins q_users) [(''users.name'', VStr ''x'')] =
      Inr [Eq (Column ''users'' ''name'') (VStr ''x'')]" by code_simp
  have 2: "CHR ''.'' \<notin> set (col_name_of ''name__gt'')" by code_simp
  have 3: "col_name_of ''name__gt'' = ''name''" by code_simp
  from apply_filters_malformed_key
    [of q_users "[(''users.name'', VStr ''x'')]" _ "VInt 3" "''name__gt''" "[]" False
        "[(''users.name'', VStr ''x''), (''name__gt'', VInt 3)]" "''name''"] 1 2 3
  show ?thesis by simp
qed

text \<open>
  Claim C10: the entries whose value is \<^verbatim>\<open>None\<close> are skipped before anything is done
  with their key, so a call behaves as the call without them; when every entry is skipped
  the call returns the builder unchanged. The \<^verbatim>\<open>isnull\<close> and \<^verbatim>\<open>notnull\<close> branches of
  \<^verbatim>\<open>build_filter_expression\<close> are therefore reached with a value other than
  \<^verbatim>\<open>None\<close> only.
\<close>

theorem apply_filters_skips_none:
  "apply_filters fs use_or self = apply_filters (filter (\<lambda>e. snd e \<noteq> VNone) fs) use_or self \<and>
   ((\<forall>e \<in> set fs. snd e = VNone) \<longrightarrow> apply_filters fs use_or self = Inr self)"
proof (intro conjI impI)
  show "apply_filters fs use_or self =
      apply_filters (filter (\<lambda>e. snd e \<noteq> VNone) fs) use_or self"
    unfolding apply_filters_def using filter_expressions_skip_none [of _ _ fs] by simp
next
  assume "\<forall>e \<in> set fs. snd e = VNone"
  then show "apply_filters fs use_or self = Inr self"
    by (simp add: apply_filters_def filter_expressions_all_none)
qed

theorem apply_filters_skips_none_witness:
  "apply_filters [(''users.name__isnull'', VNone), (''users.name__notnull'', VNone)] False q_users
     = Inr q_users \<and>
   apply_filters [(''users.name__isnull'', VNone), (''users.name__notnull'', VNone)] True q_users
     = Inr q_users"
  using apply_filters_skips_none
          [of "[(''users.name__isnull'', VNone), (''users.name__notnull'', VNone)]" False q_users]
        apply_filters_skips_none
          [of "[(''users.name__isnull'', VNone), (''users.name__notnull'', VNone)]" True q_users]
  by (simp add: apply_filters_def)

section \<open>Properties of the resolver\<close>









section \<open>Properties of the terminal methods and of the compiler\<close>

lemma clone_same: "clone self = self"
  by (simp add: clone_def new_table_query_def)

lemma q_active_eq:
  "q_active =
     new_table_query\<lparr>q_base_table := Some rel_users, q_where := [Cond ''User.active == True'']\<rparr>"
  by (simp add: q_active_def where_q_def table_def new_table_query_def)

lemma all_keeps_self: "snd (snd (all session self db)) = self"
  by (simp add: all_def Let_def split: sum.splits prod.splits)

lemma first_keeps_self: "snd (snd (first session self db)) = self"
  by (simp add: first_def Let_def split: sum.splits prod.splits)

lemma count_keeps_self: "snd (snd (count session self db)) = self"
  by (simp add: count_def Let_def split: sum.splits prod.splits)

text \<open>
  Claim C2 holds of the code only in part. The read terminals \<^verbatim>\<open>all\<close>, \<^verbatim>\<open>first\<close>
  and \<^verbatim>\<open>count\<close> reset the clone they compile from and leave the builder they are called
  on as it was: after \<^verbatim>\<open>db.table(User).where(User.active == True).all()\<close> the builder
  still holds its base relation and its predicate. \<^verbatim>\<open>paginate\<close> does reset the builder
  itself.
\<close>

theorem read_terminals_keep_builder_state:
  "snd (snd (all echo_session q_active [])) = q_active \<and>
   snd (snd (first echo_session q_active [])) = q_active \<and>
   snd (snd (count echo_session q_active [])) = q_active \<and>
   fst (all echo_session q_active []) = Inr [] \<and>
   q_base_table q_active = Some rel_users \<and>
   q_where q_active = [Cond ''User.active == True''] \<and>
   snd (snd (paginate echo_session 1 10 q_active [])) = reset_state q_active"
proof -
  have "fst (all echo_session q_active []) = Inr []"
    by (simp add: all_def echo_session_def clone_same build_query_def q_active_eq
        new_table_query_def Let_def)
  moreover have "snd (snd (paginate echo_session 1 10 q_active [])) = reset_state q_active"
    by (simp add: paginate_def echo_session_def clone_same build_query_def count_statement_def
        q_active_eq new_table_query_def Let_def rel_users_def py_getattr_def)
  ultimately show ?thesis
    by (simp add: all_keeps_self first_keeps_self count_keeps_self q_active_eq new_table_query_def)
qed

subsection \<open>The compiled statement in closed form\<close>

lemma fold_joins_eq:
  "fold (\<lambda>(join_type, model, onclause) st. apply_join st join_type model onclause) js st =
   st\<lparr>s_joins := s_joins st @ map (\<lambda>(join_type, model, onclause).
       (model, onclause, join_type = ''right'' \<or> join_type = ''full'' \<or> join_type = ''left'',
        join_type = ''full'')) js\<rparr>"
  by (induction js arbitrary: st) (auto simp: apply_join_def stmt_join_def)

lemma apply_where_eq:
  "apply_where st ws os = st\<lparr>s_where := s_where st @
     (if ws = [] \<and> os = [] then []
      else if os = [] then [case ws of [w] \<Rightarrow> w | _ \<Rightarrow> And ws]
      else if ws = [] then [case os of [c] \<Rightarrow> c | _ \<Rightarrow> Or os]
      else [And [case ws of [w] \<Rightarrow> w | _ \<Rightarrow> And ws, case os of [c] \<Rightarrow> c | _ \<Rightarrow> Or os]])\<rparr>"
  by (cases ws; cases os; cases "tl ws"; cases "tl os")
     (auto simp: apply_where_def stmt_where_def Let_def)

lemma step_schema:
  "(case sch of None \<Rightarrow> st | Some s \<Rightarrow> if s = [] then st else st\<lparr>s_schema := Some s\<rparr>) =
   st\<lparr>s_schema := (case truthy_schema sch of None \<Rightarrow> s_schema st | Some s \<Rightarrow> Some s)\<rparr>"
  by (simp add: truthy_schema_def split: option.splits)

lemma step_group_by:
  "(if g \<noteq> [] then st\<lparr>s_group_by := s_group_by st @ g\<rparr> else st) = st\<lparr>s_group_by := s_group_by st @ g\<rparr>"
  by simp

lemma step_having:
  "(if h \<noteq> [] then st\<lparr>s_having := s_having st @ [And h]\<rparr> else st) =
   st\<lparr>s_having := s_having st @ (if h \<noteq> [] then [And h] else [])\<rparr>"
  by simp

lemma step_order:
  "(if g \<noteq> [] then st\<lparr>s_order_by := s_order_by st @ g\<rparr> else st) = st\<lparr>s_order_by := s_order_by st @ g\<rparr>"
  by simp

lemma step_limit:
  "(case l of None \<Rightarrow> st | Some x \<Rightarrow> st\<lparr>s_limit := Some x\<rparr>) =
   st\<lparr>s_limit := (case l of None \<Rightarrow> s_limit st | Some x \<Rightarrow> Some x)\<rparr>"
  by (simp split: option.splits)

lemma step_offset:
  "(case l of None \<Rightarrow> st | Some x \<Rightarrow> st\<lparr>s_offset := Some x\<rparr>) =
   st\<lparr>s_offset := (case l of None \<Rightarrow> s_offset st | Some x \<Rightarrow> Some x)\<rparr>"
  by (simp split: option.splits)

lemma opt_id: "(case x of None \<Rightarrow> None | Some y \<Rightarrow> Some y) = x"
  by (cases x) simp_all

lemma build_query_closed:
  assumes "q_base_table self = Some base"
  shows "build_query self =
     Inr \<lparr>s_columns = (if q_select self \<noteq> [] then q_select self else [SelEntity base]),
          s_select_from = None,
          s_schema = truthy_schema (q_schema self),
          s_joins = map (\<lambda>(join_type, model, onclause).
             (model, onclause, join_type = ''right'' \<or> join_type = ''full'' \<or> join_type = ''left'',
              join_type = ''full'')) (q_joins self),
          s_where =
            (if q_where self = [] \<and> q_or_where self = [] then []
             else if q_or_where self = [] then
               [case q_where self of [w] \<Rightarrow> w | _ \<Rightarrow> And (q_where self)]
             else if q_where self = [] then
               [case q_or_where self of [c] \<Rightarrow> c | _ \<Rightarrow> Or (q_or_where self)]
             else
               [And [case q_where self of [w] \<Rightarrow> w | _ \<Rightarrow> And (q_where self),
                     case q_or_where self of [c] \<Rightarrow> c | _ \<Rightarrow> Or (q_or_where self)]]),
          s_group_by = q_group_by self,
          s_having = (if q_having self \<noteq> [] then [And (q_having self)] else []),
          s_order_by = q_order self,
          s_limit = q_limit self,
          s_offset = q_offset self\<rparr>"
proof -
  define W where "W =
            (if q_where self = [] \<and> q_or_where self = [] then []
             else if q_or_where self = [] then
               [case q_where self of [w] \<Rightarrow> w | _ \<Rightarrow> And (q_where self)]
             else if q_where self = [] then
               [case q_or_where self of [c] \<Rightarrow> c | _ \<Rightarrow> Or (q_or_where self)]
             else
               [And [case q_where self of [w] \<Rightarrow> w | _ \<Rightarrow> And (q_where self),
                     case q_or_where self of [c] \<Rightarrow> c | _ \<Rightarrow> Or (q_or_where self)]])"
  have aw: "\<And>st. apply_where st (q_where self) (q_or_where self) = st\<lparr>s_where := s_where st @ W\<rparr>"
    unfolding W_def by (rule apply_where_eq)
  define C where "C = (if q_select self \<noteq> [] then q_select self else [SelEntity base])"
  show ?thesis unfolding W_def [symmetric] C_def [symmetric] build_query_def assms option.case
    by (simp only: step_schema step_group_by step_having step_order step_limit step_offset aw fold_joins_eq)
       (simp add: Let_def select_stmt_def opt_id cong: option.case_cong if_cong)
qed


lemma build_query_None: "q_base_table self = None \<Longrightarrow> build_query self = Inl BaseTableNotSet"
  by (simp add: build_query_def)

lemma build_query_ignores_union:
  "build_query (self\<lparr>q_union_queries := ms, q_union_all := f\<rparr>) = map_sum id id (build_query self)"
proof (cases "q_base_table self")
  case None
  then show ?thesis by (simp add: build_query_None)
next
  case (Some base)
  then have "q_base_table (self\<lparr>q_union_queries := ms, q_union_all := f\<rparr>) = Some base" by simp
  from build_query_closed [OF this] build_query_closed [OF Some] show ?thesis
    by (simp cong: if_cong list.case_cong)
qed

lemma build_query_joins:
  assumes "q_base_table self = Some base"
  shows "map_sum id s_joins (build_query self) =
     Inr (map (\<lambda>(join_type, model, onclause).
       (model, onclause, join_type = ''right'' \<or> join_type = ''full'' \<or> join_type = ''left'',
        join_type = ''full'')) (q_joins self))"
  by (simp add: build_query_closed [OF assms])

lemma union_replaces:
  "the_tqs a = Some ms \<Longrightarrow> the_tqs b = Some ns \<Longrightarrow>
   then_do (union_q a self) (union_all b) = Inr (self\<lparr>q_union_queries := ns, q_union_all := True\<rparr>) \<and>
   then_do (union_all a self) (union_q b) = Inr (self\<lparr>q_union_queries := ns, q_union_all := False\<rparr>)"
  by (simp add: then_do_def union_q_def union_all_def)

text \<open>
  Claim C3 holds of the code only in part. A later \<^verbatim>\<open>union\<close> or \<^verbatim>\<open>union_all\<close> call
  replaces the member list and the mode, but the compiler never reads them: the statement
  compiled for \<^verbatim>\<open>table(User).union(q)\<close> and for \<^verbatim>\<open>table(User).union_all(q)\<close> is the
  plain select of the base relation, with no member in it.
\<close>

theorem build_query_drops_union_members:
  "then_do (union_q [TQ q_posts] q_users_base) build_query = Inr (select_stmt [SelEntity rel_users]) \<and>
   then_do (union_all [TQ q_posts] q_users_base) build_query = Inr (select_stmt [SelEntity rel_users]) \<and>
   build_query q_users_base = Inr (select_stmt [SelEntity rel_users]) \<and>
   map_sum id q_union_queries (union_q [TQ q_posts] q_users_base) = Inr [q_posts] \<and>
   map_sum id q_union_queries (then_do (union_q [TQ q_posts] q_users_base) (union_all [TQ q_posts, TQ q_posts]))
     = Inr [q_posts, q_posts]"
proof -
  have b: "q_base_table q_users_base = Some rel_users"
    by (simp add: q_users_base_def table_def)
  have c: "build_query q_users_base = Inr (select_stmt [SelEntity rel_users])"
    by (simp add: build_query_closed [OF b] select_stmt_def truthy_schema_def)
       (simp add: q_users_base_def table_def new_table_query_def)
  show ?thesis
    by (simp add: then_do_def union_q_def union_all_def build_query_ignores_union c)
qed

lemma right_join_as_left_join:
  "build_query (right_join m c self) = build_query (left_join m c self)"
proof (cases "q_base_table self")
  case None
  then show ?thesis by (simp add: build_query_None right_join_def left_join_def)
next
  case (Some base)
  have r: "q_base_table (right_join m c self) = Some base"
    using Some by (simp add: right_join_def)
  have l: "q_base_table (left_join m c self) = Some base"
    using Some by (simp add: left_join_def)
  show ?thesis
    unfolding build_query_closed [OF r] build_query_closed [OF l]
    by (simp add: right_join_def left_join_def cong: if_cong list.case_cong)
qed

text \<open>
  Claim C4 holds of the code only in part. The joins are applied in insertion order, and
  \<open>left\<close>, \<open>inner\<close> and \<open>full\<close> map to the left outer, inner and full outer join. A
  join of kind \<open>right\<close> is not compiled with its operands swapped: it makes the very call
  that \<open>left\<close> makes, so \<^verbatim>\<open>table(User).right_join(Post, on)\<close> compiles to the statement
  of \<^verbatim>\<open>table(User).left_join(Post, on)\<close>, a left outer join from the users to the posts.
\<close>

theorem right_join_compiles_as_left_join:
  "build_query (right_join rel_posts (Cond ''User.id == Post.user_id'') q_users) =
   build_query (left_join rel_posts (Cond ''User.id == Post.user_id'') q_users) \<and>
   map_sum id s_joins
     (build_query (right_join rel_posts (Cond ''User.id == Post.user_id'') q_users)) =
     Inr [(rel_posts, Cond ''User.id == Post.user_id'', True, False)]"
proof -
  have r: "q_base_table (right_join rel_posts (Cond ''User.id == Post.user_id'') q_users) = Some rel_users"
    by (simp add: right_join_def q_users_def table_def)
  have j: "q_joins (right_join rel_posts (Cond ''User.id == Post.user_id'') q_users) =
      [(''right'', rel_posts, Cond ''User.id == Post.user_id'')]"
    by (simp add: right_join_def q_users_def table_def new_table_query_def)
  have s: "map_sum id s_joins
     (build_query (right_join rel_posts (Cond ''User.id == Post.user_id'') q_users)) =
     Inr [(rel_posts, Cond ''User.id == Post.user_id'', True, False)]"
    by (simp add: build_query_joins [OF r] j)
  show ?thesis using s by (simp add: right_join_as_left_join [symmetric])
qed

section \<open>Properties of the count statement and of pagination\<close>








section \<open>Properties of create_many\<close>
















end
